theory Spec2Isabelle
  imports Main "HOL-Library.Extended_Nat"
begin

section \<open>The transcript scanner of \<^verbatim>\<open>src/analytics/transcript-scanner.ts\<close>\<close>

text \<open>
  A shallow embedding of the two exported functions \<^verbatim>\<open>decodeProjectPath\<close> and
  \<^verbatim>\<open>scanTranscripts\<close> and of the helpers they call.

  Conventions of the embedding.
  \<^item> A JavaScript string is a \<open>string\<close>, a list of 8-bit characters. The source only ever
    compares characters with ASCII ones, so the embedding covers strings whose code units
    are below 256.
  \<^item> The file system, the home directory, \<^verbatim>\<open>path.join\<close> and the regular expressions
    of the language belong to the platform, not to the repository. They are parameters:
    \<open>existsSync\<close> is a predicate on paths, the other calls are fields of the record
    \<open>Platform\<close>. One scan sees one snapshot of the file system.
  \<^item> A rejected promise or a \<^verbatim>\<open>throw\<close> is the left injection of a sum type.
\<close>

subsection \<open>String and array primitives of the language\<close>

text \<open>\<^verbatim>\<open>s.startsWith(p)\<close> and \<^verbatim>\<open>s.endsWith(p)\<close>.\<close>

definition startsWith :: "string \<Rightarrow> string \<Rightarrow> bool" where
  "startsWith s p = (take (length p) s = p)"

definition endsWith :: "string \<Rightarrow> string \<Rightarrow> bool" where
  "endsWith s p = (length p \<le> length s \<and> drop (length s - length p) s = p)"

text \<open>\<^verbatim>\<open>s.slice(n)\<close> for a non-negative \<open>n\<close>.\<close>

definition slice :: "nat \<Rightarrow> string \<Rightarrow> string" where
  "slice n s = drop n s"

text \<open>
  \<^verbatim>\<open>s.replace(/c/g, r)\<close> for a single character \<open>c\<close> and a replacement \<open>r\<close> without
  dollar signs: every occurrence of \<open>c\<close> becomes \<open>r\<close>.
\<close>

definition replaceAll :: "char \<Rightarrow> string \<Rightarrow> string \<Rightarrow> string" where
  "replaceAll c r s = concat (map (\<lambda>x. if x = c then r else [x]) s)"

text \<open>
  \<^verbatim>\<open>s.replace(p, r)\<close> for a string pattern \<open>p\<close>: only the first occurrence of \<open>p\<close> is
  replaced.
\<close>

fun replaceFirst :: "string \<Rightarrow> string \<Rightarrow> string \<Rightarrow> string" where
  "replaceFirst p r [] = (if p = [] then r else [])"
| "replaceFirst p r (x # xs) =
     (if startsWith (x # xs) p then r @ drop (length p) (x # xs)
      else x # replaceFirst p r xs)"

text \<open>
  \<^verbatim>\<open>s.split(c)\<close> for a single character separator: the result is never empty, and the
  empty string splits into one empty piece.
\<close>

fun splitOn :: "char \<Rightarrow> string \<Rightarrow> string list" where
  "splitOn c [] = [[]]"
| "splitOn c (x # xs) =
     (if x = c then [] # splitOn c xs
      else (case splitOn c xs of
              [] \<Rightarrow> [[x]]
            | w # ws \<Rightarrow> (x # w) # ws))"

text \<open>\<^verbatim>\<open>parts.join(c)\<close> for a single character separator.\<close>

fun joinWith :: "char \<Rightarrow> string list \<Rightarrow> string" where
  "joinWith c [] = []"
| "joinWith c [w] = w"
| "joinWith c (w # v # ws) = w @ c # joinWith c (v # ws)"

text \<open>
  \<^verbatim>\<open>parts.pop()\<close>: the removed last element (\<open>None\<close> for \<^verbatim>\<open>undefined\<close>, on an empty
  array) and the array that remains.
\<close>

definition pop :: "'a list \<Rightarrow> 'a option \<times> 'a list" where
  "pop xs = (if xs = [] then (None, []) else (Some (last xs), butlast xs))"

subsection \<open>\<^verbatim>\<open>decodeProjectPath\<close>\<close>

text \<open>
  The inner function \<^verbatim>\<open>generatePaths(parts, index, currentPath)\<close>. It pushes onto the
  array \<^verbatim>\<open>possiblePaths\<close> of the enclosing call; the array is passed in and returned.
  \<^verbatim>\<open>pathParts.pop() || ''\<close> is the popped string, or the empty string when nothing was
  popped (an empty popped string is falsy and stays the empty string).
\<close>

function generatePaths :: "string list \<Rightarrow> nat \<Rightarrow> string \<Rightarrow> string list \<Rightarrow> string list" where
  "generatePaths parts index currentPath possiblePaths =
     (if index \<ge> length parts then possiblePaths @ [currentPath]
      else
        let possiblePaths1 =
              generatePaths parts (index + 1) (currentPath @ ''/'' @ parts ! index) possiblePaths
        in if index > 0 \<and> currentPath \<noteq> [] then
             let (popped, pathParts) = pop (splitOn (CHR ''/'') currentPath);
                 lastPart = (case popped of None \<Rightarrow> [] | Some l \<Rightarrow> l);
                 newPath = joinWith (CHR ''/'') pathParts @ ''/'' @ lastPart @ ''-'' @ parts ! index
             in generatePaths parts (index + 1) newPath possiblePaths1
           else possiblePaths1)"
  by pat_completeness auto
termination
  by (relation "measure (\<lambda>(parts, index, currentPath, possiblePaths). length parts - index)") auto

declare generatePaths.simps [simp del]

text \<open>
  \<^verbatim>\<open>decodeProjectPath(dirName)\<close>, with \<^verbatim>\<open>existsSync\<close> as a parameter. The final loop
  over \<^verbatim>\<open>possiblePaths\<close> returns the first path that exists.
\<close>

definition simplePath :: "string \<Rightarrow> string" where
  "simplePath dirName = ''/'' @ replaceAll (CHR ''-'') ''/'' (slice 1 dirName)"

definition decodeProjectPath :: "(string \<Rightarrow> bool) \<Rightarrow> string \<Rightarrow> string" where
  "decodeProjectPath existsSync' dirName =
     (if \<not> startsWith dirName ''-'' then dirName
      else if existsSync' (simplePath dirName) then simplePath dirName
      else
        let segments = splitOn (CHR ''-'') (slice 1 dirName);
            possiblePaths = generatePaths segments 0 [] []
        in case find existsSync' possiblePaths of
             Some path \<Rightarrow> path
           | None \<Rightarrow> simplePath dirName)"

subsection \<open>Data of the scanner\<close>

text \<open>
  A \<^verbatim>\<open>Date\<close> is its time value, a whole number of milliseconds, or the invalid date
  (time value NaN). \<^verbatim>\<open>a < b\<close> on dates compares the time values, and is false when
  either is NaN.
\<close>

datatype Date = Date int | InvalidDate

fun dateLess :: "Date \<Rightarrow> Date \<Rightarrow> bool" where
  "dateLess (Date a) (Date b) = (a < b)"
| "dateLess _ _ = False"

text \<open>
  The sum of two JavaScript numbers is the double-precision number nearest to the exact
  sum, the one with the even significand when two are equally near, and \<^verbatim>\<open>Infinity\<close>
  from \<open>2 ^ 1024 - 2 ^ 970\<close> on. The numbers met here are non-negative integers or
  \<^verbatim>\<open>Infinity\<close>: a finite one is a natural number, a sum is an \<open>enat\<close>.
  \<open>dropBits n\<close> is the number of low bits of \<open>n\<close> that do not fit into the 53 bits
  of a significand, \<open>roundNumber n\<close> the number nearest to the integer \<open>n\<close>, and
  \<open>numberAdd s x\<close> the sum \<^verbatim>\<open>s + x\<close> of the numbers \<open>s\<close> and \<open>x\<close>.
\<close>

function dropBits :: "nat \<Rightarrow> nat" where
  "dropBits n = (if n < 2 ^ 53 then 0 else Suc (dropBits (n div 2)))"
  by pat_completeness auto
termination
  by (relation "measure id") auto

declare dropBits.simps [simp del]

definition roundNumber :: "nat \<Rightarrow> enat" where
  "roundNumber n =
     (if 2 ^ 1024 - 2 ^ 970 \<le> n then \<infinity>
      else
        let e = dropBits n; q = n div 2 ^ e; r = n mod 2 ^ e
        in if 2 * r < 2 ^ e \<or> (2 * r = 2 ^ e \<and> even q) then enat (q * 2 ^ e)
           else enat ((q + 1) * 2 ^ e))"

definition numberAdd :: "enat \<Rightarrow> nat \<Rightarrow> enat" where
  "numberAdd s x = (case s of enat a \<Rightarrow> roundNumber (a + x) | \<infinity> \<Rightarrow> \<infinity>)"

text \<open>
  The interfaces \<^verbatim>\<open>TranscriptFile\<close>, \<^verbatim>\<open>ScanResult\<close> and \<^verbatim>\<open>ScanOptions\<close>. The size of a
  file is a number whose value is a whole number of bytes; \<open>totalSize\<close> is a sum of
  such numbers.
\<close>

record TranscriptFile =
  projectPath :: string
  projectDir :: string
  sessionId :: string
  filePath :: string
  fileSize :: nat
  modifiedTime :: Date

record ScanResult =
  transcripts :: "TranscriptFile list"
  totalSize :: enat
  projectCount :: nat

record ScanOptions =
  projectFilter :: "string option"
  minDate :: "Date option"

text \<open>
  The platform. A thrown error is seen by the \<^verbatim>\<open>catch\<close> clause as a
  \<^verbatim>\<open>NodeJS.ErrnoException\<close>, whose \<^verbatim>\<open>code\<close> is optional (a \<^verbatim>\<open>SyntaxError\<close> has none).
  \<^verbatim>\<open>readdir(dir, {withFileTypes: true})\<close> yields directory entries, \<^verbatim>\<open>readdir(dir)\<close>
  yields names, \<^verbatim>\<open>stat(path)\<close> yields the size and the modification time. \<^verbatim>\<open>path.join\<close>
  takes the list of its arguments. \<^verbatim>\<open>new RegExp(source)\<close> throws or yields a regular
  expression, which is the function \<^verbatim>\<open>test\<close> of that expression.
\<close>

record ErrnoException =
  code :: "string option"
  message :: string

record Dirent =
  name :: string
  isDirectory :: bool

record Stats =
  size' :: nat
  mtime :: Date

record Platform =
  homedir :: string
  join :: "string list \<Rightarrow> string"
  existsSync :: "string \<Rightarrow> bool"
  newRegExp :: "string \<Rightarrow> ErrnoException + (string \<Rightarrow> bool)"
  readdirWithFileTypes :: "string \<Rightarrow> ErrnoException + Dirent list"
  readdir :: "string \<Rightarrow> ErrnoException + string list"
  stat :: "string \<Rightarrow> ErrnoException + Stats"

text \<open>
  A \<^verbatim>\<open>Set<string>\<close> is the list of its elements in insertion order, without
  repetition.
\<close>

definition Set_add :: "string \<Rightarrow> string list \<Rightarrow> string list" where
  "Set_add x xs = (if x \<in> set xs then xs else xs @ [x])"

definition Set_size :: "string list \<Rightarrow> nat" where
  "Set_size xs = length xs"

subsection \<open>\<^verbatim>\<open>UUID_REGEX\<close>\<close>

text \<open>
  \<^verbatim>\<open>/^[a-f0-9]{8}-[a-f0-9]{4}-[a-f0-9]{4}-[a-f0-9]{4}-[a-f0-9]{12}$/\<close>, without flags:
  the whole string is groups of characters of the class \<^verbatim>\<open>[a-f0-9]\<close>, of the given
  lengths, with one \<open>-\<close> between two groups.
\<close>

definition hexLower :: "char \<Rightarrow> bool" where
  "hexLower c = (c \<in> set ''abcdef0123456789'')"

fun matchGroups :: "nat list \<Rightarrow> string \<Rightarrow> bool" where
  "matchGroups [] s = (s = [])"
| "matchGroups [n] s = (length s = n \<and> list_all hexLower s)"
| "matchGroups (n # m # ns) s =
     (n < length s \<and> list_all hexLower (take n s) \<and> s ! n = CHR ''-'' \<and>
      matchGroups (m # ns) (drop (Suc n) s))"

definition UUID_REGEX_test :: "string \<Rightarrow> bool" where
  "UUID_REGEX_test s = matchGroups [8, 4, 4, 4, 12] s"

subsection \<open>The meaning of regular expressions, on a fragment of their syntax\<close>

text \<open>
  What \<^verbatim>\<open>new RegExp(source)\<close> and \<^verbatim>\<open>regex.test(s)\<close> do is fixed by the language. That
  meaning is written down here for a fragment of the pattern syntax: the assertions
  \<^verbatim>\<open>^\<close> and \<^verbatim>\<open>$\<close>, and atoms that are a character without syntactic meaning, the
  escaped dot \<^verbatim>\<open>\.\<close> or the dot, each optionally followed by the quantifier \<^verbatim>\<open>*\<close>.
  \<open>parsePattern\<close> is \<open>None\<close> on a source outside the fragment. No flag is given, so
  \<^verbatim>\<open>^\<close> holds only at the start of the input, \<^verbatim>\<open>$\<close> only at its end, and the dot matches
  every character but a line terminator (line feed and carriage return, among the
  characters below 256).
\<close>

datatype atom = Char char | AnyChar

datatype node = AssertStart | AssertEnd | Single atom | Many atom

definition syntaxCharacter :: "char \<Rightarrow> bool" where
  "syntaxCharacter c = (c \<in> set (CHR 0x5C # ''^$.*+?()[]{}|''))"

definition lineTerminator :: "char \<Rightarrow> bool" where
  "lineTerminator c = (c = CHR 0x0A \<or> c = CHR 0x0D)"

fun atomMatches :: "atom \<Rightarrow> char \<Rightarrow> bool" where
  "atomMatches (Char x) c = (c = x)"
| "atomMatches AnyChar c = (\<not> lineTerminator c)"

fun parseAtom :: "string \<Rightarrow> (atom \<times> string) option" where
  "parseAtom [] = None"
| "parseAtom (c # cs) =
     (if c = CHR ''.'' then Some (AnyChar, cs)
      else if c = CHR 0x5C then
        (case cs of
           [] \<Rightarrow> None
         | d # ds \<Rightarrow> if d = CHR ''.'' then Some (Char d, ds) else None)
      else if syntaxCharacter c then None
      else Some (Char c, cs))"

function parsePattern :: "string \<Rightarrow> node list option" where
  "parsePattern [] = Some []"
| "parsePattern (c # cs) =
     (if c = CHR ''^'' then map_option ((#) AssertStart) (parsePattern cs)
      else if c = CHR ''$'' then map_option ((#) AssertEnd) (parsePattern cs)
      else
        (case parseAtom (c # cs) of
           None \<Rightarrow> None
         | Some (a, rest) \<Rightarrow>
             (case rest of
                [] \<Rightarrow> Some [Single a]
              | q # rest' \<Rightarrow>
                  if q = CHR ''*'' then map_option ((#) (Many a)) (parsePattern rest')
                  else map_option ((#) (Single a)) (parsePattern rest))))"
  by pat_completeness auto
termination
  by (relation "measure length") (auto split: if_splits list.splits)

text \<open>
  \<open>matchHere r atStart s\<close>: the nodes \<open>r\<close> match a prefix of the remaining input \<open>s\<close>;
  \<open>atStart\<close> tells whether \<open>s\<close> is the whole input. \<open>matchFrom\<close> tries every start
  position, as \<^verbatim>\<open>test\<close> does.
\<close>

fun matchHere :: "node list \<Rightarrow> bool \<Rightarrow> string \<Rightarrow> bool" where
  "matchHere [] atStart s = True"
| "matchHere (AssertStart # r) atStart s = (atStart \<and> matchHere r atStart s)"
| "matchHere (AssertEnd # r) atStart s = (s = [] \<and> matchHere r atStart s)"
| "matchHere (Single a # r) atStart [] = False"
| "matchHere (Single a # r) atStart (c # cs) = (atomMatches a c \<and> matchHere r False cs)"
| "matchHere (Many a # r) atStart [] = matchHere r atStart []"
| "matchHere (Many a # r) atStart (c # cs) =
     (matchHere r atStart (c # cs) \<or> (atomMatches a c \<and> matchHere (Many a # r) False cs))"

fun matchFrom :: "node list \<Rightarrow> bool \<Rightarrow> string \<Rightarrow> bool" where
  "matchFrom r atStart [] = matchHere r atStart []"
| "matchFrom r atStart (c # cs) = (matchHere r atStart (c # cs) \<or> matchFrom r False cs)"

text \<open>
  A platform's regular expressions have the meaning that the language gives them on the
  fragment: a source of the fragment is accepted, and the expression tests a string as
  \<open>matchFrom\<close> does from the start of the input. Nothing is said of other sources.
\<close>

definition ecmaScriptOnFragment :: "(string \<Rightarrow> ErrnoException + (string \<Rightarrow> bool)) \<Rightarrow> bool" where
  "ecmaScriptOnFragment newRegExp' =
     (\<forall>source nodes. parsePattern source = Some nodes \<longrightarrow>
        newRegExp' source = Inr (matchFrom nodes True))"

subsection \<open>\<^verbatim>\<open>matchesPattern\<close>\<close>

text \<open>
  \<^verbatim>\<open>matchesPattern(path, pattern)\<close>, with \<^verbatim>\<open>new RegExp\<close> as a parameter. \<^verbatim>\<open>!pattern\<close>
  holds for \<^verbatim>\<open>undefined\<close> and for the empty string. An error that \<^verbatim>\<open>new RegExp\<close> throws
  leaves the function.
\<close>

definition regexPattern :: "string \<Rightarrow> string" where
  "regexPattern pattern =
     replaceAll (CHR ''?'') ''.''
       (replaceAll (CHR ''*'') ''.*''
         (replaceAll (CHR ''.'') [CHR 0x5C, CHR ''.''] pattern))"

definition matchesPattern ::
  "(string \<Rightarrow> ErrnoException + (string \<Rightarrow> bool)) \<Rightarrow> string \<Rightarrow> string option \<Rightarrow>
   ErrnoException + bool" where
  "matchesPattern newRegExp' path pattern =
     (case pattern of
        None \<Rightarrow> Inr True
      | Some pat \<Rightarrow>
          if pat = [] then Inr True
          else
            (case newRegExp' (''^'' @ regexPattern pat @ ''$'') of
               Inl error \<Rightarrow> Inl error
             | Inr regex \<Rightarrow> Inr (regex path)))"

subsection \<open>\<^verbatim>\<open>scanTranscripts\<close>\<close>

text \<open>
  The scan either returns or fails. A failure is a thrown error.
\<close>

datatype failure = Thrown ErrnoException

text \<open>
  The inner loop, over the names \<^verbatim>\<open>projectFiles\<close> of one project directory. The state
  is the array \<^verbatim>\<open>transcripts\<close> and the set \<^verbatim>\<open>projectDirs\<close>. Each \<^verbatim>\<open>continue\<close> goes on
  with the rest of the names and the state as it is; a rejected \<^verbatim>\<open>stat\<close> leaves the loop.
\<close>

fun scanFiles ::
  "Platform \<Rightarrow> ScanOptions \<Rightarrow> string \<Rightarrow> string \<Rightarrow> string \<Rightarrow> string list \<Rightarrow>
   TranscriptFile list \<times> string list \<Rightarrow> failure + TranscriptFile list \<times> string list" where
  "scanFiles pf options projectPath' projectDir' fullProjectPath [] st = Inr st"
| "scanFiles pf options projectPath' projectDir' fullProjectPath (fileName # rest) st =
     (if fileName = ''sessions-index.json'' \<or> \<not> endsWith fileName ''.jsonl'' then
        scanFiles pf options projectPath' projectDir' fullProjectPath rest st
      else
        let sessionId' = replaceFirst ''.jsonl'' [] fileName in
        if \<not> UUID_REGEX_test sessionId' then
          scanFiles pf options projectPath' projectDir' fullProjectPath rest st
        else
          let filePath' = join pf [fullProjectPath, fileName] in
          case stat pf filePath' of
            Inl error \<Rightarrow> Inl (Thrown error)
          | Inr fileStats \<Rightarrow>
              if (case minDate options of
                    None \<Rightarrow> False
                  | Some d \<Rightarrow> dateLess (mtime fileStats) d) then
                scanFiles pf options projectPath' projectDir' fullProjectPath rest st
              else
                scanFiles pf options projectPath' projectDir' fullProjectPath rest
                  (fst st @
                     [\<lparr>projectPath = projectPath', projectDir = projectDir',
                       sessionId = sessionId', filePath = filePath',
                       fileSize = size' fileStats, modifiedTime = mtime fileStats\<rparr>],
                   Set_add projectDir' (snd st)))"

text \<open>The outer loop, over the entries of the projects directory.\<close>

fun scanEntries ::
  "Platform \<Rightarrow> ScanOptions \<Rightarrow> string \<Rightarrow> Dirent list \<Rightarrow>
   TranscriptFile list \<times> string list \<Rightarrow> failure + TranscriptFile list \<times> string list" where
  "scanEntries pf options projectsDir [] st = Inr st"
| "scanEntries pf options projectsDir (entry # rest) st =
     (if \<not> isDirectory entry then scanEntries pf options projectsDir rest st
      else
        let projectDir' = name entry;
            projectPath' = decodeProjectPath (existsSync pf) projectDir'
        in case matchesPattern (newRegExp pf) projectPath' (projectFilter options) of
             Inl error \<Rightarrow> Inl (Thrown error)
           | Inr False \<Rightarrow> scanEntries pf options projectsDir rest st
           | Inr True \<Rightarrow>
               (let fullProjectPath = join pf [projectsDir, projectDir'] in
                (case readdir pf fullProjectPath of
                   Inl error \<Rightarrow> Inl (Thrown error)
                 | Inr projectFiles \<Rightarrow>
                     (case scanFiles pf options projectPath' projectDir' fullProjectPath
                             projectFiles st of
                        Inl f \<Rightarrow> Inl f
                      | Inr st' \<Rightarrow> scanEntries pf options projectsDir rest st'))))"

text \<open>
  The body of the \<^verbatim>\<open>try\<close> block, and the function with its \<^verbatim>\<open>catch\<close> clause and the
  computation of the result after it.
\<close>

definition emptyResult :: ScanResult where
  "emptyResult = \<lparr>transcripts = [], totalSize = 0, projectCount = 0\<rparr>"

definition tryBlock ::
  "Platform \<Rightarrow> ScanOptions \<Rightarrow> string \<Rightarrow> failure + TranscriptFile list \<times> string list" where
  "tryBlock pf options projectsDir =
     (case readdirWithFileTypes pf projectsDir of
        Inl error \<Rightarrow> Inl (Thrown error)
      | Inr entries \<Rightarrow> scanEntries pf options projectsDir entries ([], []))"

definition scanTranscripts :: "Platform \<Rightarrow> ScanOptions \<Rightarrow> failure + ScanResult" where
  "scanTranscripts pf options =
     (let projectsDir = join pf [homedir pf, ''.claude'', ''projects''] in
      case tryBlock pf options projectsDir of
        Inl (Thrown error) \<Rightarrow>
          if code error = Some ''ENOENT'' then Inr emptyResult else Inl (Thrown error)
      | Inr (transcripts', projectDirs) \<Rightarrow>
          Inr \<lparr>transcripts = transcripts',
               totalSize = foldl (\<lambda>sum t. numberAdd sum (fileSize t)) 0 transcripts',
               projectCount = Set_size projectDirs\<rparr>)"

subsection \<open>The enumeration of candidates as the specification words it\<close>

text \<open>
  The specification describes the search on path components, not on strings: going
  through the segments in order, each segment either starts a new component or, once a
  component exists, is appended to the previous component with the marker in between.
  \<open>groupings comps segs\<close> lists the groupings that extend the components \<open>comps\<close> by
  the segments \<open>segs\<close>, depth-first, "new component" before "merge with previous".
  A grouping is written as a path by putting a separator before each component.
\<close>

fun groupings :: "string list \<Rightarrow> string list \<Rightarrow> string list list" where
  "groupings comps [] = [comps]"
| "groupings comps (s # ss) =
     groupings (comps @ [s]) ss @
     (if comps = [] then [] else groupings (butlast comps @ [last comps @ ''-'' @ s]) ss)"

definition render :: "string list \<Rightarrow> string" where
  "render comps = concat (map (\<lambda>c. CHR ''/'' # c) comps)"

definition candidates :: "string list \<Rightarrow> string list" where
  "candidates segs = map render (groupings [] segs)"

subsection \<open>Glob matching as the specification words it\<close>

text \<open>
  A glob pattern matches a whole path: \<open>*\<close> stands for any sequence of characters,
  \<open>?\<close> for any single character, every other character (the dot too) for itself.
  The parameter \<open>ok\<close> tells which characters a wildcard may stand for: every character
  in the specification's reading.
\<close>

fun globMatch :: "(char \<Rightarrow> bool) \<Rightarrow> string \<Rightarrow> string \<Rightarrow> bool" where
  "globMatch ok [] s = (s = [])"
| "globMatch ok (p # ps) [] = (p = CHR ''*'' \<and> globMatch ok ps [])"
| "globMatch ok (p # ps) (c # cs) =
     (if p = CHR ''*'' then globMatch ok ps (c # cs) \<or> (ok c \<and> globMatch ok (p # ps) cs)
      else if p = CHR ''?'' then ok c \<and> globMatch ok ps cs
      else p = c \<and> globMatch ok ps cs)"

definition anyCharacter :: "char \<Rightarrow> bool" where
  "anyCharacter c = True"

definition notLineTerminator :: "char \<Rightarrow> bool" where
  "notLineTerminator c = (\<not> lineTerminator c)"

text \<open>
  The characters of a pattern that the conversion to a regular expression handles: the
  three it rewrites, and those without syntactic meaning in a regular expression.
\<close>

definition globCharacter :: "char \<Rightarrow> bool" where
  "globCharacter c = (c \<in> set ''.*?'' \<or> \<not> syntaxCharacter c)"

text \<open>The node that the regular expression has for one such character of the pattern.\<close>

fun nodeOf :: "char \<Rightarrow> node" where
  "nodeOf c = (if c = CHR ''*'' then Many AnyChar
               else if c = CHR ''?'' then Single AnyChar
               else Single (Char c))"

subsection \<open>Transcript file names as the specification words them\<close>

text \<open>
  A canonical UUID has 36 characters: a hyphen at the positions 8, 13, 18 and 23, which
  makes groups of 8, 4, 4, 4 and 12 characters, and a lowercase hexadecimal digit at every
  other position.
\<close>

definition canonicalUUID :: "string \<Rightarrow> bool" where
  "canonicalUUID s =
     (length s = 36 \<and>
      list_all (\<lambda>i. if i \<in> set [8, 13, 18, 23] then s ! i = CHR ''-'' else hexLower (s ! i))
        [0..<36])"

text \<open>
  A name qualifies when it is not the reserved index name, ends with the extension, and
  is a canonical UUID once the extension is stripped from its end.
\<close>

definition stripExtension :: "string \<Rightarrow> string" where
  "stripExtension fileName = take (length fileName - length ''.jsonl'') fileName"

definition transcriptName :: "string \<Rightarrow> bool" where
  "transcriptName fileName =
     (fileName \<noteq> ''sessions-index.json'' \<and> endsWith fileName ''.jsonl'' \<and>
      canonicalUUID (stripExtension fileName))"

subsection \<open>The record and the date test of the inner loop, named\<close>

text \<open>
  The record that the inner loop pushes for a file name whose session identifier is the
  name without its extension, and the test \<^verbatim>\<open>options.minDate && fileStats.mtime < options.minDate\<close>.
\<close>

definition recordOf ::
  "Platform \<Rightarrow> string \<Rightarrow> string \<Rightarrow> string \<Rightarrow> string \<Rightarrow> Stats \<Rightarrow> TranscriptFile" where
  "recordOf pf projectPath' projectDir' fullProjectPath fileName fileStats =
     \<lparr>projectPath = projectPath', projectDir = projectDir',
      sessionId = stripExtension fileName, filePath = join pf [fullProjectPath, fileName],
      fileSize = size' fileStats, modifiedTime = mtime fileStats\<rparr>"

definition tooOld :: "ScanOptions \<Rightarrow> Stats \<Rightarrow> bool" where
  "tooOld options fileStats =
     (case minDate options of None \<Rightarrow> False | Some d \<Rightarrow> dateLess (mtime fileStats) d)"

text \<open>
  The relation that the loops keep between the set \<^verbatim>\<open>projectDirs\<close> and the array
  \<^verbatim>\<open>transcripts\<close>.
\<close>

definition dirsInv :: "TranscriptFile list \<times> string list \<Rightarrow> bool" where
  "dirsInv st = (distinct (snd st) \<and> set (snd st) = projectDir ` set (fst st))"

subsection \<open>File systems and platforms used as examples\<close>

text \<open>A file system on which no path exists.\<close>

definition noEntries :: "string \<Rightarrow> bool" where
  "noEntries p = False"

text \<open>A file system that holds the directory \<^verbatim>\<open>/home/user/my-project\<close> and its ancestors.\<close>

definition fsMyProject :: "string \<Rightarrow> bool" where
  "fsMyProject p = (p \<in> set [''/'', ''/home'', ''/home/user'', ''/home/user/my-project''])"

text \<open>
  Platforms: a home directory, a plain \<^verbatim>\<open>join\<close>, errors, and regular expressions that
  have their meaning on the fragment and are refused outside it.
\<close>

definition syntaxError :: ErrnoException where
  "syntaxError = \<lparr>code = None, message = ''Invalid regular expression''\<rparr>"

definition exampleRegExp :: "string \<Rightarrow> ErrnoException + (string \<Rightarrow> bool)" where
  "exampleRegExp source =
     (case parsePattern source of
        None \<Rightarrow> Inl syntaxError
      | Some nodes \<Rightarrow> Inr (matchFrom nodes True))"

definition testRoot :: string where
  "testRoot = ''/home/testuser/.claude/projects''"

definition simpleJoin :: "string list \<Rightarrow> string" where
  "simpleJoin parts = joinWith (CHR ''/'') parts"

definition notFound :: ErrnoException where
  "notFound = \<lparr>code = Some ''ENOENT'', message = ''no such file or directory''\<rparr>"

definition denied :: ErrnoException where
  "denied = \<lparr>code = Some ''EACCES'', message = ''permission denied''\<rparr>"

definition noFilters :: ScanOptions where
  "noFilters = \<lparr>projectFilter = None, minDate = None\<rparr>"

text \<open>A platform on which every call of the file system fails with the given error.\<close>

definition rootFails :: "ErrnoException \<Rightarrow> Platform" where
  "rootFails e =
     \<lparr>homedir = ''/home/testuser'', join = simpleJoin, existsSync = noEntries, newRegExp = exampleRegExp,
      readdirWithFileTypes = (\<lambda>p. Inl e), readdir = (\<lambda>p. Inl e), stat = (\<lambda>p. Inl e)\<rparr>"

text \<open>
  A projects directory with the project directories \<^verbatim>\<open>alpha\<close>, which holds one
  transcript, and \<^verbatim>\<open>beta\<close>, which holds a name that \<^verbatim>\<open>stat\<close> does not find (a symbolic
  link whose target is gone).
\<close>

definition nestedMissing :: Platform where
  "nestedMissing =
     \<lparr>homedir = ''/home/testuser'', join = simpleJoin, existsSync = noEntries, newRegExp = exampleRegExp,
      readdirWithFileTypes = (\<lambda>p. if p = testRoot
         then Inr [\<lparr>name = ''alpha'', isDirectory = True\<rparr>, \<lparr>name = ''beta'', isDirectory = True\<rparr>]
         else Inl notFound),
      readdir = (\<lambda>p.
         if p = ''/home/testuser/.claude/projects/alpha''
         then Inr [''a1b2c3d4-e5f6-7890-abcd-ef1234567890.jsonl'']
         else if p = ''/home/testuser/.claude/projects/beta''
         then Inr [''c3d4e5f6-a7b8-9012-cdef-123456789012.jsonl'']
         else Inl notFound),
      stat = (\<lambda>p.
         if p = ''/home/testuser/.claude/projects/beta/c3d4e5f6-a7b8-9012-cdef-123456789012.jsonl''
         then Inl notFound
         else Inr \<lparr>size' = 1024, mtime = Date 24\<rparr>)\<rparr>"

text \<open>
  Two project directories with transcripts of 1024 bytes each, a third without files and
  an entry that is not a directory.
\<close>

definition twoProjects :: Platform where
  "twoProjects =
     \<lparr>homedir = ''/home/testuser'', join = simpleJoin, existsSync = noEntries, newRegExp = exampleRegExp,
      readdirWithFileTypes = (\<lambda>p. if p = testRoot
         then Inr [\<lparr>name = ''-home-testuser-project1'', isDirectory = True\<rparr>,
                   \<lparr>name = ''some-file.txt'', isDirectory = False\<rparr>,
                   \<lparr>name = ''-home-testuser-project2'', isDirectory = True\<rparr>,
                   \<lparr>name = ''empty'', isDirectory = True\<rparr>]
         else Inl notFound),
      readdir = (\<lambda>p.
         if p = ''/home/testuser/.claude/projects/-home-testuser-project1''
         then Inr [''a1b2c3d4-e5f6-7890-abcd-ef1234567890.jsonl'',
                   ''b2c3d4e5-f6a7-8901-bcde-f12345678901.jsonl'',
                   ''sessions-index.json'']
         else if p = ''/home/testuser/.claude/projects/-home-testuser-project2''
         then Inr [''c3d4e5f6-a7b8-9012-cdef-123456789012.jsonl'']
         else if p = ''/home/testuser/.claude/projects/empty'' then Inr []
         else Inl notFound),
      stat = (\<lambda>p. Inr \<lparr>size' = 1024, mtime = Date 24\<rparr>)\<rparr>"

definition twoProjectsResult :: ScanResult where
  "twoProjectsResult =
     \<lparr>transcripts =
        [\<lparr>projectPath = ''/home/testuser/project1'', projectDir = ''-home-testuser-project1'',
          sessionId = ''a1b2c3d4-e5f6-7890-abcd-ef1234567890'',
          filePath = ''/home/testuser/.claude/projects/-home-testuser-project1/a1b2c3d4-e5f6-7890-abcd-ef1234567890.jsonl'',
          fileSize = 1024, modifiedTime = Date 24\<rparr>,
         \<lparr>projectPath = ''/home/testuser/project1'', projectDir = ''-home-testuser-project1'',
          sessionId = ''b2c3d4e5-f6a7-8901-bcde-f12345678901'',
          filePath = ''/home/testuser/.claude/projects/-home-testuser-project1/b2c3d4e5-f6a7-8901-bcde-f12345678901.jsonl'',
          fileSize = 1024, modifiedTime = Date 24\<rparr>,
         \<lparr>projectPath = ''/home/testuser/project2'', projectDir = ''-home-testuser-project2'',
          sessionId = ''c3d4e5f6-a7b8-9012-cdef-123456789012'',
          filePath = ''/home/testuser/.claude/projects/-home-testuser-project2/c3d4e5f6-a7b8-9012-cdef-123456789012.jsonl'',
          fileSize = 1024, modifiedTime = Date 24\<rparr>],
      totalSize = 3072, projectCount = 2\<rparr>"





text \<open>
  The names of one project directory: one transcript, names that are no UUID, the index
  file and a file with another extension.
\<close>

definition mixedNames :: "string list" where
  "mixedNames = [''invalid-session-id.jsonl'',
                 ''a1b2c3d4-e5f6-7890-abcd-ef1234567890.jsonl'',
                 ''A1B2C3D4-E5F6-7890-ABCD-EF1234567890.jsonl'',
                 ''sessions-index.json'',
                 ''readme.txt'']"

text \<open>The path \<^verbatim>\<open>a\<close>, line feed, \<^verbatim>\<open>b\<close>.\<close>

definition twoLines :: string where
  "twoLines = [CHR ''a'', CHR 0x0A, CHR ''b'']"

text \<open>
  A projects directory whose only project directory has that name and holds one
  transcript, and the options whose filter is \<^verbatim>\<open>*\<close>.
\<close>

definition lineBreakProject :: Platform where
  "lineBreakProject =
     \<lparr>homedir = ''/home/testuser'', join = simpleJoin, existsSync = noEntries, newRegExp = exampleRegExp,
      readdirWithFileTypes = (\<lambda>p. if p = testRoot
         then Inr [\<lparr>name = twoLines, isDirectory = True\<rparr>]
         else Inl notFound),
      readdir = (\<lambda>p. Inr [''a1b2c3d4-e5f6-7890-abcd-ef1234567890.jsonl'']),
      stat = (\<lambda>p. Inr \<lparr>size' = 1024, mtime = Date 24\<rparr>)\<rparr>"

definition starOnly :: ScanOptions where
  "starOnly = \<lparr>projectFilter = Some ''*'', minDate = None\<rparr>"

text \<open>
  One project directory with a transcript of \<open>2 ^ 53\<close> bytes and a transcript of one
  byte, and the result of its scan.
\<close>

definition hugeFiles :: Platform where
  "hugeFiles =
     \<lparr>homedir = ''/home/testuser'', join = simpleJoin, existsSync = noEntries, newRegExp = exampleRegExp,
      readdirWithFileTypes = (\<lambda>p. if p = testRoot
         then Inr [\<lparr>name = ''big'', isDirectory = True\<rparr>]
         else Inl notFound),
      readdir = (\<lambda>p. Inr [''a1b2c3d4-e5f6-7890-abcd-ef1234567890.jsonl'',
                          ''b2c3d4e5-f6a7-8901-bcde-f12345678901.jsonl'']),
      stat = (\<lambda>p.
         if p = ''/home/testuser/.claude/projects/big/a1b2c3d4-e5f6-7890-abcd-ef1234567890.jsonl''
         then Inr \<lparr>size' = 9007199254740992, mtime = Date 24\<rparr>
         else Inr \<lparr>size' = 1, mtime = Date 24\<rparr>)\<rparr>"

definition hugeResult :: ScanResult where
  "hugeResult =
     \<lparr>transcripts =
        [\<lparr>projectPath = ''big'', projectDir = ''big'',
          sessionId = ''a1b2c3d4-e5f6-7890-abcd-ef1234567890'',
          filePath = ''/home/testuser/.claude/projects/big/a1b2c3d4-e5f6-7890-abcd-ef1234567890.jsonl'',
          fileSize = 9007199254740992, modifiedTime = Date 24\<rparr>,
         \<lparr>projectPath = ''big'', projectDir = ''big'',
          sessionId = ''b2c3d4e5-f6a7-8901-bcde-f12345678901'',
          filePath = ''/home/testuser/.claude/projects/big/b2c3d4e5-f6a7-8901-bcde-f12345678901.jsonl'',
          fileSize = 1, modifiedTime = Date 24\<rparr>],
      totalSize = 9007199254740992, projectCount = 1\<rparr>"

section \<open>Properties\<close>

subsection \<open>The code's enumeration is the specified one\<close>

lemma splitOn_ne: "splitOn c s \<noteq> []"
  by (induction s) (auto split: list.splits)

lemma joinWith_snoc: "ws \<noteq> [] \<Longrightarrow> joinWith c (ws @ [w]) = joinWith c ws @ c # w"
  by (induction c ws rule: joinWith.induct) auto

lemma joinWith_Cons: "ws \<noteq> [] \<Longrightarrow> joinWith c (w # ws) = w @ c # joinWith c ws"
  by (cases ws) auto

lemma joinWith_splitOn: "joinWith c (splitOn c s) = s"
proof (induction s)
  case Nil show ?case by simp
next
  case (Cons x xs)
  show ?case
  proof (cases "x = c")
    case True
    then show ?thesis using Cons splitOn_ne[of c xs] by (simp add: joinWith_Cons)
  next
    case False
    obtain w ws where sp: "splitOn c xs = w # ws" using splitOn_ne[of c xs] by (cases "splitOn c xs") auto
    then show ?thesis using Cons False by (cases ws) auto
  qed
qed

lemma splitOn_len: "c \<in> set s \<Longrightarrow> 2 \<le> length (splitOn c s)"
proof (induction s)
  case Nil then show ?case by simp
next
  case (Cons x xs)
  then show ?case using splitOn_ne[of c xs]
    by (cases "splitOn c xs") (auto split: list.splits)
qed

lemma join_butlast_last:
  assumes "c \<in> set s"
  shows "joinWith c (butlast (splitOn c s)) @ c # last (splitOn c s) = s"
proof -
  let ?ws = "splitOn c s"
  have ne: "butlast ?ws \<noteq> []" using splitOn_len[OF assms] by (cases ?ws rule: rev_cases) auto
  have "?ws = butlast ?ws @ [last ?ws]" using splitOn_ne by simp
  then have "joinWith c ?ws = joinWith c (butlast ?ws) @ c # last ?ws"
    using joinWith_snoc[OF ne, of c "last ?ws"] by simp
  then show ?thesis by (simp add: joinWith_splitOn)
qed

lemma merge_step:
  assumes "c \<in> set p"
  shows "joinWith c (butlast (splitOn c p)) @ c # last (splitOn c p) @ t = p @ t"
  using join_butlast_last[OF assms] by (metis append.assoc append_Cons)

lemma render_snoc: "render (comps @ [s]) = render comps @ CHR ''/'' # s"
  by (simp add: render_def)

lemma render_merge: "comps \<noteq> [] \<Longrightarrow> render (butlast comps @ [last comps @ CHR ''-'' # s]) = render comps @ CHR ''-'' # s"
  by (cases comps rule: rev_cases) (auto simp: render_def)

lemma render_slash: "comps \<noteq> [] \<Longrightarrow> CHR ''/'' \<in> set (render comps)"
  by (cases comps) (auto simp: render_def)

lemma generatePaths_groupings:
  "index \<le> length parts \<Longrightarrow> (index = 0 \<longleftrightarrow> comps = []) \<Longrightarrow>
   generatePaths parts index (render comps) acc = acc @ map render (groupings comps (drop index parts))"
proof (induction "length parts - index" arbitrary: index comps acc)
  case 0
  then show ?case by (simp add: generatePaths.simps)
next
  case (Suc n)
  then have lt: "index < length parts" by simp
  define seg where "seg = parts ! index"
  have dr: "drop index parts = seg # drop (Suc index) parts"
    using lt by (simp add: Cons_nth_drop_Suc seg_def)
  have n: "n = length parts - Suc index" using Suc.hyps(2) by simp
  have a1: "generatePaths parts (Suc index) (render comps @ ''/'' @ seg) acc
        = acc @ map render (groupings (comps @ [seg]) (drop (Suc index) parts))"
    using Suc.hyps(1)[OF n, of "comps @ [seg]" acc] lt by (simp add: render_snoc)
  show ?case
  proof (cases "index = 0")
    case True
    then have c: "comps = []" using Suc.prems by simp
    have "generatePaths parts index (render comps) acc
          = generatePaths parts (Suc index) (render comps @ ''/'' @ seg) acc"
      using lt True by (subst generatePaths.simps) (simp add: seg_def)
    then show ?thesis using a1 c by (simp add: dr)
  next
    case False
    then have c: "comps \<noteq> []" using Suc.prems by simp
    have rn: "render comps \<noteq> []" using render_slash[OF c] by auto
    have a2: "generatePaths parts (Suc index) (render comps @ ''-'' @ seg) acc'
        = acc' @ map render (groupings (butlast comps @ [last comps @ ''-'' @ seg]) (drop (Suc index) parts))" for acc'
      using Suc.hyps(1)[OF n, of "butlast comps @ [last comps @ ''-'' @ seg]" acc'] lt c
      by (simp add: render_merge)
    have "generatePaths parts index (render comps) acc
          = generatePaths parts (Suc index) (render comps @ ''-'' @ seg)
              (generatePaths parts (Suc index) (render comps @ ''/'' @ seg) acc)"
      using lt False rn
      by (subst generatePaths.simps)
         (simp add: seg_def Let_def pop_def splitOn_ne merge_step[OF render_slash[OF c]])
    then show ?thesis using a1 a2 c by (simp add: dr)
  qed
qed

lemma generatePaths_candidates:
  "generatePaths parts 0 [] [] = candidates parts"
  using generatePaths_groupings[of 0 parts "[]" "[]"] by (simp add: render_def candidates_def)


lemma replaceAll_joinWith: "replaceAll c [d] s = joinWith d (splitOn c s)"
proof (induction s)
  case Nil
  show ?case by (simp add: replaceAll_def)
next
  case (Cons x xs)
  obtain w ws where sp: "splitOn c xs = w # ws"
    using splitOn_ne[of c xs] by (cases "splitOn c xs") auto
  have r: "replaceAll c [d] (x # xs) = (if x = c then [d] else [x]) @ replaceAll c [d] xs"
    by (simp add: replaceAll_def)
  show ?case using Cons sp by (cases ws) (auto simp: r)
qed

lemma render_joinWith: "segs \<noteq> [] \<Longrightarrow> render segs = CHR ''/'' # joinWith (CHR ''/'') segs"
  by (induction "CHR ''/''" segs rule: joinWith.induct) (auto simp: render_def)

lemma simplePath_render: "simplePath dirName = render (splitOn (CHR ''-'') (slice 1 dirName))"
  by (simp add: simplePath_def replaceAll_joinWith render_joinWith splitOn_ne)

lemma groupings_first_two:
  "comps @ ss \<noteq> [] \<Longrightarrow>
   \<exists>rest. groupings comps (ss @ [b]) =
     (comps @ ss @ [b]) # (butlast (comps @ ss) @ [last (comps @ ss) @ ''-'' @ b]) # rest"
proof (induction ss arbitrary: comps)
  case Nil
  then show ?case by simp
next
  case (Cons s ss)
  have "(comps @ [s]) @ ss \<noteq> []" by simp
  from Cons.IH[OF this] obtain rest where
    "groupings (comps @ [s]) (ss @ [b]) =
       ((comps @ [s]) @ ss @ [b]) # (butlast ((comps @ [s]) @ ss) @ [last ((comps @ [s]) @ ss) @ ''-'' @ b]) # rest"
    by blast
  then show ?case by simp
qed

lemma decode_hyphenated_last:
  assumes m: "startsWith dirName ''-''"
      and sp: "splitOn (CHR ''-'') (slice 1 dirName) = pre @ [a, b]"
      and ns: "\<not> existsSync' (simplePath dirName)"
      and e: "existsSync' (render (pre @ [a @ ''-'' @ b]))"
  shows "decodeProjectPath existsSync' dirName = render (pre @ [a @ ''-'' @ b])"
proof -
  have sp': "splitOn (CHR ''-'') (slice (Suc 0) dirName) = pre @ [a, b]"
    using sp by simp
  have s: "simplePath dirName = render (pre @ [a, b])"
    by (simp only: simplePath_render sp)
  obtain rest where "groupings [] ((pre @ [a]) @ [b]) =
     ([] @ (pre @ [a]) @ [b]) # (butlast ([] @ pre @ [a]) @ [last ([] @ pre @ [a]) @ ''-'' @ b]) # rest"
    using groupings_first_two[of "[]" "pre @ [a]" b] by auto
  then have "candidates (pre @ [a, b]) =
      render (pre @ [a, b]) # render (pre @ [a @ ''-'' @ b]) # map render rest"
    by (simp add: candidates_def butlast_append)
  then have "find existsSync' (candidates (pre @ [a, b])) = Some (render (pre @ [a @ ''-'' @ b]))"
    using ns e s by simp
  then show ?thesis using m ns
    by (simp add: decodeProjectPath_def generatePaths_candidates sp')
qed

subsection \<open>The regular expression of a glob pattern\<close>

lemma replaceAll_append: "replaceAll c r (a @ b) = replaceAll c r a @ replaceAll c r b"
  by (simp add: replaceAll_def)

lemma regexPattern_Cons:
  "regexPattern (c # cs) =
     (if c = CHR ''.'' then [CHR 0x5C, CHR ''.'']
      else if c = CHR ''*'' then ''.*''
      else if c = CHR ''?'' then ''.''
      else [c]) @ regexPattern cs"
  by (simp add: regexPattern_def replaceAll_def)

lemma regexPattern_Nil: "regexPattern [] = []"
  by (simp add: regexPattern_def replaceAll_def)

lemma regexPattern_hd: "\<exists>x xs. regexPattern cs @ ''$'' = x # xs \<and> x \<noteq> CHR ''*''"
  by (cases cs) (auto simp: regexPattern_Cons regexPattern_Nil)

lemma parsePattern_regexPattern:
  "list_all globCharacter pat \<Longrightarrow>
   parsePattern (regexPattern pat @ ''$'') = Some (map nodeOf pat @ [AssertEnd])"
proof (induction pat)
  case Nil
  then show ?case by (simp add: regexPattern_Nil)
next
  case (Cons c cs)
  obtain x xs where r: "regexPattern cs @ ''$'' = x # xs" and x: "x \<noteq> CHR ''*''"
    using regexPattern_hd by blast
  have ih: "parsePattern (x # xs) = Some (map nodeOf cs @ [AssertEnd])"
    using Cons r by simp
  have gc: "globCharacter c" using Cons.prems by simp
  consider "c = CHR ''.''" | "c = CHR ''*''" | "c = CHR ''?''" | "\<not> syntaxCharacter c"
    using gc by (auto simp: globCharacter_def)
  then show ?case
  proof cases
    case 1
    then show ?thesis using r x ih by (simp add: regexPattern_Cons del: parsePattern.simps(2)) (simp)
  next
    case 2
    then show ?thesis using r x ih by (simp add: regexPattern_Cons)
  next
    case 3
    then show ?thesis using r x ih by (simp add: regexPattern_Cons)
  next
    case 4
    then have "c \<noteq> CHR ''.''" "c \<noteq> CHR ''*''" "c \<noteq> CHR ''?''" "c \<noteq> CHR ''^''" "c \<noteq> CHR ''$''" "c \<noteq> CHR 0x5C"
      by (auto simp: syntaxCharacter_def)
    then show ?thesis using 4 r x ih by (simp add: regexPattern_Cons)
  qed
qed

lemma matchHere_glob:
  "matchHere (map nodeOf pat @ [AssertEnd]) b s = globMatch notLineTerminator pat s"
proof (induction notLineTerminator pat s arbitrary: b rule: globMatch.induct)
  case (1 s)
  then show ?case by simp
next
  case (2 p ps)
  then show ?case by simp
next
  case (3 p ps c cs)
  then show ?case by (auto simp: notLineTerminator_def)
qed

lemma matchFrom_AssertStart_False: "matchFrom (AssertStart # r) False s = False"
  by (induction s) auto

lemma matchFrom_AssertStart: "matchFrom (AssertStart # r) True s = matchHere r True s"
  by (cases s) (auto simp: matchFrom_AssertStart_False)

lemma matchesPattern_glob:
  assumes "ecmaScriptOnFragment newRegExp'" "pat \<noteq> []" "list_all globCharacter pat"
  shows "matchesPattern newRegExp' path (Some pat) = Inr (globMatch notLineTerminator pat path)"
proof -
  have "parsePattern (''^'' @ regexPattern pat @ ''$'') = Some (AssertStart # map nodeOf pat @ [AssertEnd])"
    using parsePattern_regexPattern[OF assms(3)] by simp
  then have "newRegExp' (''^'' @ regexPattern pat @ ''$'')
               = Inr (matchFrom (AssertStart # map nodeOf pat @ [AssertEnd]) True)"
    using assms(1) unfolding ecmaScriptOnFragment_def by blast
  then show ?thesis using assms(2)
    by (simp add: matchesPattern_def matchFrom_AssertStart matchHere_glob)
qed

lemma exampleRegExp_conforms: "ecmaScriptOnFragment exampleRegExp"
  by (simp add: ecmaScriptOnFragment_def exampleRegExp_def)

lemma globMatch_mono:
  "list_all notLineTerminator s \<Longrightarrow> globMatch notLineTerminator pat s = globMatch anyCharacter pat s"
  by (induction notLineTerminator pat s rule: globMatch.induct) (auto simp: anyCharacter_def)

subsection \<open>The session identifier of a file name\<close>

lemma endsWith_append: "endsWith f p \<Longrightarrow> f = take (length f - length p) f @ p"
  by (metis append_take_drop_id endsWith_def)

lemma replaceFirst_suffix:
  "p \<noteq> [] \<Longrightarrow> replaceFirst p [] (u @ p) = u \<or>
     (replaceFirst p [] (u @ p) \<noteq> [] \<and> last (replaceFirst p [] (u @ p)) = last p)"
proof (induction u)
  case Nil
  then show ?case by (cases p) (auto simp: startsWith_def)
next
  case (Cons x u)
  show ?case
  proof (cases "startsWith (x # u @ p) p")
    case True
    have "drop (length p) (x # u @ p) \<noteq> []" by simp
    moreover have "last (drop (length p) (x # u @ p)) = last p"
      using Cons.prems by simp
    ultimately show ?thesis using True by simp
  next
    case False
    then show ?thesis using Cons by auto
  qed
qed

lemma replaceFirst_absent:
  "x \<notin> set u \<Longrightarrow> replaceFirst (x # p) r (u @ x # p) = u @ r"
  by (induction u) (auto simp: startsWith_def)

lemma matchGroups_chars:
  "matchGroups ns s \<Longrightarrow> c \<in> set s \<Longrightarrow> hexLower c \<or> c = CHR ''-''"
proof (induction ns s rule: matchGroups.induct)
  case (1 s)
  then show ?case by simp
next
  case (2 n s)
  then show ?case by (auto simp: list_all_iff)
next
  case (3 n m ns s)
  from 3(2) have n: "n < length s" by simp
  have s: "s = take n s @ s ! n # drop (Suc n) s"
    using id_take_nth_drop[OF n] .
  from 3(3) have "c \<in> set (take n s) \<or> c = s ! n \<or> c \<in> set (drop (Suc n) s)"
    by (metis s Un_iff set_ConsD set_append)
  then show ?case using 3(1,2) by (auto simp: list_all_iff)
qed

lemma matchGroups_last:
  "matchGroups ns s \<Longrightarrow> ns \<noteq> [] \<Longrightarrow> 0 \<notin> set ns \<Longrightarrow> s \<noteq> [] \<and> hexLower (last s)"
proof (induction ns s rule: matchGroups.induct)
  case (1 s)
  then show ?case by simp
next
  case (2 n s)
  then show ?case by (auto simp: list_all_iff)
next
  case (3 n m ns s)
  from "3.prems"(1) have l: "n < length s" and g: "matchGroups (m # ns) (drop (Suc n) s)"
    by simp_all
  from "3.prems"(3) have z: "0 \<notin> set (m # ns)" by simp
  have d: "drop (Suc n) s \<noteq> [] \<and> hexLower (last (drop (Suc n) s))"
    using "3.IH"[OF g _ z] by blast
  then have l: "Suc n < length s" by simp
  then have "last (drop (Suc n) s) = last s" by (rule last_drop)
  with d have "hexLower (last s)" by metis
  moreover have "s \<noteq> []" using l by auto
  ultimately show ?case by blast
qed

lemma UUID_chars: "UUID_REGEX_test s \<Longrightarrow> CHR ''.'' \<notin> set s"
  using matchGroups_chars[of "[8, 4, 4, 4, 12]" s "CHR ''.''"]
  by (auto simp: UUID_REGEX_test_def hexLower_def)

lemma UUID_last: "UUID_REGEX_test s \<Longrightarrow> s \<noteq> [] \<and> last s \<noteq> CHR ''l''"
  using matchGroups_last[of "[8, 4, 4, 4, 12]" s]
  by (auto simp: UUID_REGEX_test_def hexLower_def)

lemma sessionId_stripped:
  assumes "endsWith fileName ''.jsonl''"
  shows "UUID_REGEX_test (replaceFirst ''.jsonl'' [] fileName) = UUID_REGEX_test (stripExtension fileName)"
    and "UUID_REGEX_test (stripExtension fileName) \<Longrightarrow>
           replaceFirst ''.jsonl'' [] fileName = stripExtension fileName"
proof -
  let ?u = "stripExtension fileName"
  have f: "fileName = ?u @ ''.jsonl''"
    using endsWith_append[OF assms] by (simp add: stripExtension_def)
  have a: "UUID_REGEX_test ?u \<Longrightarrow> replaceFirst ''.jsonl'' [] (?u @ ''.jsonl'') = ?u"
    using replaceFirst_absent[of "CHR ''.''" ?u "''jsonl''" "[]"] UUID_chars[of ?u] by simp
  have b: "UUID_REGEX_test (replaceFirst ''.jsonl'' [] (?u @ ''.jsonl'')) \<Longrightarrow>
           replaceFirst ''.jsonl'' [] (?u @ ''.jsonl'') = ?u"
    using replaceFirst_suffix[of "''.jsonl''" ?u] UUID_last[of "replaceFirst ''.jsonl'' [] (?u @ ''.jsonl'')"]
    by auto
  show "UUID_REGEX_test (replaceFirst ''.jsonl'' [] fileName) = UUID_REGEX_test ?u"
    using a b f by metis
  show "UUID_REGEX_test ?u \<Longrightarrow> replaceFirst ''.jsonl'' [] fileName = ?u"
    using a f by metis
qed

lemma UUID_length: "UUID_REGEX_test s \<Longrightarrow> length s = 36"
  by (auto simp: UUID_REGEX_test_def)

lemma list36:
  assumes "length (s :: 'a list) = 36"
  obtains c0 c1 c2 c3 c4 c5 c6 c7 c8 c9 c10 c11 c12 c13 c14 c15 c16 c17 c18 c19 c20 c21 c22 c23
          c24 c25 c26 c27 c28 c29 c30 c31 c32 c33 c34 c35
  where "s = [c0, c1, c2, c3, c4, c5, c6, c7, c8, c9, c10, c11, c12, c13, c14, c15, c16, c17, c18,
              c19, c20, c21, c22, c23, c24, c25, c26, c27, c28, c29, c30, c31, c32, c33, c34, c35]"
  using assms by (auto simp: numeral_eq_Suc length_Suc_conv)

lemma upt36:
  "[0..<36] = [0, 1, 2, 3, 4, 5, 6, 7, 8, 9, 10, 11, 12, 13, 14, 15, 16, 17, 18, 19, 20, 21, 22,
               23, 24, 25, 26, 27, 28, 29, 30, 31, 32, 33, 34, 35]"
  by code_simp

lemma UUID_REGEX_canonical: "UUID_REGEX_test s = canonicalUUID s"
proof (cases "length s = 36")
  case False
  then show ?thesis using UUID_length[of s] by (auto simp: canonicalUUID_def)
next
  case True
  then obtain c0 c1 c2 c3 c4 c5 c6 c7 c8 c9 c10 c11 c12 c13 c14 c15 c16 c17 c18 c19 c20 c21 c22 c23
          c24 c25 c26 c27 c28 c29 c30 c31 c32 c33 c34 c35
  where s: "s = [c0, c1, c2, c3, c4, c5, c6, c7, c8, c9, c10, c11, c12, c13, c14, c15, c16, c17, c18,
              c19, c20, c21, c22, c23, c24, c25, c26, c27, c28, c29, c30, c31, c32, c33, c34, c35]"
    by (rule list36)
  show ?thesis unfolding s
    by (simp add: UUID_REGEX_test_def canonicalUUID_def upt36)
qed

lemma transcriptName_code:
  "transcriptName fileName =
     (fileName \<noteq> ''sessions-index.json'' \<and> endsWith fileName ''.jsonl'' \<and>
      UUID_REGEX_test (stripExtension fileName))"
  by (simp add: transcriptName_def UUID_REGEX_canonical)

subsection \<open>The loops of the scan\<close>

lemma scanFiles_skip:
  "\<not> transcriptName fileName \<Longrightarrow>
   scanFiles pf options pp pd full (fileName # rest) st = scanFiles pf options pp pd full rest st"
  using sessionId_stripped(1)[of fileName]
  by (auto simp: transcriptName_code)

lemma scanFiles_step:
  "transcriptName fileName \<Longrightarrow>
   scanFiles pf options pp pd full (fileName # rest) st =
     (case stat pf (join pf [full, fileName]) of
        Inl error \<Rightarrow> Inl (Thrown error)
      | Inr fileStats \<Rightarrow>
          if tooOld options fileStats then scanFiles pf options pp pd full rest st
          else scanFiles pf options pp pd full rest
                 (fst st @ [recordOf pf pp pd full fileName fileStats], Set_add pd (snd st)))"
  using sessionId_stripped[of fileName]
  by (auto simp: transcriptName_code recordOf_def tooOld_def Let_def split: sum.splits)

lemma scanFiles_filter:
  "scanFiles pf options pp pd full files st =
   scanFiles pf options pp pd full (filter transcriptName files) st"
proof (induction files arbitrary: st)
  case Nil
  show ?case by simp
next
  case (Cons f files)
  show ?case
  proof (cases "transcriptName f")
    case True
    then show ?thesis using Cons
      by (simp add: scanFiles_step del: scanFiles.simps split: sum.splits)
  next
    case False
    then show ?thesis using Cons by (simp add: scanFiles_skip del: scanFiles.simps)
  qed
qed

lemma scanFiles_records:
  "scanFiles pf options pp pd full files st = Inr st' \<Longrightarrow>
   \<exists>new. fst st' = fst st @ new \<and>
     (\<forall>t \<in> set new. \<exists>f \<in> set files. transcriptName f \<and> f = sessionId t @ ''.jsonl'' \<and> filePath t = join pf [full, f])"
proof (induction files arbitrary: st)
  case Nil
  then show ?case by simp
next
  case (Cons f files)
  show ?case
  proof (cases "transcriptName f")
    case False
    then have "scanFiles pf options pp pd full files st = Inr st'"
      using Cons.prems by (simp add: scanFiles_skip del: scanFiles.simps)
    from Cons.IH[OF this] show ?thesis by auto
  next
    case True
    then have ext: "f = stripExtension f @ ''.jsonl''"
      using endsWith_append[of f "''.jsonl''"] by (simp add: transcriptName_code stripExtension_def)
    from True Cons.prems obtain fileStats where
      s: "stat pf (join pf [full, f]) = Inr fileStats"
      by (auto simp: scanFiles_step simp del: scanFiles.simps split: sum.splits)
    show ?thesis
    proof (cases "tooOld options fileStats")
      case True
      then have "scanFiles pf options pp pd full files st = Inr st'"
        using Cons.prems \<open>transcriptName f\<close> s by (simp add: scanFiles_step del: scanFiles.simps)
      from Cons.IH[OF this] show ?thesis by auto
    next
      case False
      let ?r = "recordOf pf pp pd full f fileStats"
      have "scanFiles pf options pp pd full files (fst st @ [?r], Set_add pd (snd st)) = Inr st'"
        using Cons.prems \<open>transcriptName f\<close> s False by (simp add: scanFiles_step del: scanFiles.simps)
      from Cons.IH[OF this] obtain new where
        n: "fst st' = (fst st @ [?r]) @ new"
        and a: "\<forall>t \<in> set new. \<exists>f \<in> set files. transcriptName f \<and> f = sessionId t @ ''.jsonl'' \<and> filePath t = join pf [full, f]"
        by auto
      have r: "transcriptName f \<and> f = sessionId ?r @ ''.jsonl'' \<and> filePath ?r = join pf [full, f]"
        using True ext by (simp add: recordOf_def)
      have "fst st' = fst st @ (?r # new)" using n by simp
      moreover have "\<forall>t \<in> set (?r # new). \<exists>f' \<in> set (f # files). transcriptName f' \<and> f' = sessionId t @ ''.jsonl'' \<and> filePath t = join pf [full, f']"
        using a r by auto
      ultimately show ?thesis by blast
    qed
  qed
qed

lemma Set_add_inv:
  "dirsInv st \<Longrightarrow> projectDir t = pd \<Longrightarrow> dirsInv (fst st @ [t], Set_add pd (snd st))"
  by (auto simp: dirsInv_def Set_add_def)

lemma scanFiles_inv:
  "scanFiles pf options pp pd full files st = Inr st' \<Longrightarrow> dirsInv st \<Longrightarrow> dirsInv st'"
proof (induction files arbitrary: st)
  case Nil
  then show ?case by simp
next
  case (Cons f files)
  show ?case
  proof (cases "transcriptName f")
    case False
    then show ?thesis using Cons by (simp add: scanFiles_skip del: scanFiles.simps)
  next
    case True
    from True Cons.prems obtain fileStats where
      s: "stat pf (join pf [full, f]) = Inr fileStats"
      by (auto simp: scanFiles_step simp del: scanFiles.simps split: sum.splits)
    show ?thesis
    proof (cases "tooOld options fileStats")
      case True
      then show ?thesis using Cons \<open>transcriptName f\<close> s
        by (simp add: scanFiles_step del: scanFiles.simps)
    next
      case False
      let ?r = "recordOf pf pp pd full f fileStats"
      have 1: "scanFiles pf options pp pd full files (fst st @ [?r], Set_add pd (snd st)) = Inr st'"
        using Cons.prems \<open>transcriptName f\<close> s False by (simp add: scanFiles_step del: scanFiles.simps)
      have 2: "dirsInv (fst st @ [?r], Set_add pd (snd st))"
        using Set_add_inv[OF Cons.prems(2), of ?r pd] by (simp add: recordOf_def)
      from Cons.IH[OF 1 2] show ?thesis .
    qed
  qed
qed

lemma scanEntries_inv:
  "scanEntries pf options projectsDir entries st = Inr st' \<Longrightarrow> dirsInv st \<Longrightarrow> dirsInv st'"
proof (induction entries arbitrary: st)
  case Nil
  then show ?case by simp
next
  case (Cons e entries)
  show ?case
  proof (cases "isDirectory e")
    case False
    then show ?thesis using Cons by simp
  next
    case True
    then show ?thesis using Cons
      by (auto simp: Let_def split: bool.splits sum.splits dest: scanFiles_inv)
  qed
qed

lemma overflow_bound: "(2::nat) ^ 53 < 2 ^ 1024 - 2 ^ 970"
proof -
  have "(2::nat) ^ 1024 = 2 ^ 970 * 2 ^ 54" by (simp add: power_add[symmetric])
  then have "(2::nat) ^ 1024 - 2 ^ 970 = 2 ^ 970 * (2 ^ 54 - 1)" by (simp add: algebra_simps)
  moreover have "(2::nat) ^ 53 < 2 ^ 970" by (rule power_strict_increasing) simp_all
  moreover have "(2::nat) ^ 970 \<le> 2 ^ 970 * (2 ^ 54 - 1)" by simp
  ultimately show ?thesis by linarith
qed

lemma roundNumber_exact: "n \<le> 2 ^ 53 \<Longrightarrow> roundNumber n = enat n"
proof (cases "n < 2 ^ 53")
  case True
  then have "dropBits n = 0" by (simp add: dropBits.simps)
  moreover have "\<not> 2 ^ 1024 - 2 ^ 970 \<le> n" using True overflow_bound by linarith
  ultimately show ?thesis by (simp add: roundNumber_def)
next
  case False
  assume "n \<le> 2 ^ 53"
  with False have n: "n = 2 ^ 53" by simp
  have "dropBits ((2::nat) ^ 53) = Suc (dropBits (2 ^ 52))"
    by (subst dropBits.simps) simp
  also have "dropBits ((2::nat) ^ 52) = 0" by (subst dropBits.simps) simp
  finally have d: "dropBits (2 ^ 53) = 1" by simp
  have "\<not> 2 ^ 1024 - 2 ^ 970 \<le> (2::nat) ^ 53" using overflow_bound by linarith
  then show ?thesis unfolding n roundNumber_def d by (simp add: Let_def)
qed

lemma foldl_numberAdd:
  "a + sum_list (map fileSize ts) \<le> 2 ^ 53 \<Longrightarrow>
   foldl (\<lambda>sum t. numberAdd sum (fileSize t)) (enat a) ts = enat (a + sum_list (map fileSize ts))"
proof (induction ts arbitrary: a)
  case Nil
  show ?case by simp
next
  case (Cons t ts)
  then have "a + fileSize t \<le> 2 ^ 53" by simp
  then have "numberAdd (enat a) (fileSize t) = enat (a + fileSize t)"
    by (simp add: numberAdd_def roundNumber_exact)
  moreover have "(a + fileSize t) + sum_list (map fileSize ts) \<le> 2 ^ 53" using Cons.prems by simp
  ultimately show ?case using Cons.IH[of "a + fileSize t"] by (simp add: add.assoc)
qed

lemma foldl_numberAdd_0:
  "sum_list (map fileSize ts) \<le> 2 ^ 53 \<Longrightarrow>
   foldl (\<lambda>sum t. numberAdd sum (fileSize t)) 0 ts = enat (sum_list (map fileSize ts))"
  using foldl_numberAdd[of 0 ts] by (simp add: zero_enat_def)

lemma round_tie: "roundNumber 9007199254740993 = 9007199254740992"
proof -
  have "dropBits 9007199254740993 = Suc (dropBits 4503599627370496)"
    by (subst dropBits.simps) simp
  also have "dropBits 4503599627370496 = 0" by (subst dropBits.simps) simp
  finally have d: "dropBits 9007199254740993 = 1" by simp
  have "(9007199254740993::nat) < 2 ^ 54" by simp
  moreover have "(2::nat) ^ 54 < 2 ^ 970" by (rule power_strict_increasing) simp_all
  moreover have "(2::nat) ^ 1024 = 2 ^ 970 * 2 ^ 54" by (simp add: power_add[symmetric])
  then have "(2::nat) ^ 970 \<le> 2 ^ 1024 - 2 ^ 970" by (simp add: algebra_simps)
  ultimately have o: "\<not> 2 ^ 1024 - 2 ^ 970 \<le> (9007199254740993::nat)" by linarith
  show ?thesis unfolding roundNumber_def d using o
    by (simp add: Let_def numeral_eq_enat)
qed



subsection \<open>Claims about \<^verbatim>\<open>decodeProjectPath\<close>\<close>

text \<open>
  C3. When the simple decode of a marker-prefixed name does not exist, the result is the
  first path, in the specified depth-first order ("new component" before "merge with
  previous"), that exists, and the simple decode when there is none. When furthermore the
  name ends with the segments \<open>a\<close> and \<open>b\<close>, and the path that has \<open>a-b\<close> as its last
  component after one component for each segment before exists, this path is the
  result. In particular, on any file system where \<^verbatim>\<open>/home/user/my-project\<close> exists and
  \<^verbatim>\<open>/home/user/my/project\<close> does not, the name \<^verbatim>\<open>-home-user-my-project\<close> decodes to the
  path whose last component is \<^verbatim>\<open>my-project\<close>.
\<close>

theorem decode_first_existing_candidate:
  "(startsWith dirName ''-'' \<and> \<not> existsSync' (simplePath dirName) \<longrightarrow>
      decodeProjectPath existsSync' dirName =
        (case find existsSync' (candidates (splitOn (CHR ''-'') (slice 1 dirName))) of
           Some path \<Rightarrow> path
         | None \<Rightarrow> simplePath dirName)) \<and>
   (startsWith dirName ''-'' \<and> \<not> existsSync' (simplePath dirName) \<and>
    splitOn (CHR ''-'') (slice 1 dirName) = pre @ [a, b] \<and>
    existsSync' (render (pre @ [a @ ''-'' @ b])) \<longrightarrow>
      decodeProjectPath existsSync' dirName = render (pre @ [a @ ''-'' @ b])) \<and>
   (existsSync' ''/home/user/my-project'' \<and> \<not> existsSync' ''/home/user/my/project'' \<longrightarrow>
      decodeProjectPath existsSync' ''-home-user-my-project'' = ''/home/user/my-project'')"
proof (intro conjI impI)
  assume "startsWith dirName ''-'' \<and> \<not> existsSync' (simplePath dirName)"
  then show "decodeProjectPath existsSync' dirName =
        (case find existsSync' (candidates (splitOn (CHR ''-'') (slice 1 dirName))) of
           Some path \<Rightarrow> path
         | None \<Rightarrow> simplePath dirName)"
    by (simp add: decodeProjectPath_def generatePaths_candidates)
next
  assume "startsWith dirName ''-'' \<and> \<not> existsSync' (simplePath dirName) \<and>
    splitOn (CHR ''-'') (slice 1 dirName) = pre @ [a, b] \<and>
    existsSync' (render (pre @ [a @ ''-'' @ b]))"
  then show "decodeProjectPath existsSync' dirName = render (pre @ [a @ ''-'' @ b])"
    by (intro decode_hyphenated_last) simp_all
next
  assume "existsSync' ''/home/user/my-project'' \<and> \<not> existsSync' ''/home/user/my/project''"
  then show "decodeProjectPath existsSync' ''-home-user-my-project'' = ''/home/user/my-project''"
    by (simp add: decodeProjectPath_def generatePaths_candidates candidates_def render_def
          simplePath_def startsWith_def slice_def replaceAll_def)
qed

theorem decode_first_existing_candidate_witness:
  "startsWith ''-home-user-my-project'' ''-'' \<and>
   \<not> fsMyProject (simplePath ''-home-user-my-project'') \<and>
   splitOn (CHR ''-'') (slice 1 ''-home-user-my-project'') = [''home'', ''user''] @ [''my'', ''project''] \<and>
   render ([''home'', ''user''] @ [''my'' @ ''-'' @ ''project'']) = ''/home/user/my-project'' \<and>
   fsMyProject ''/home/user/my-project'' \<and> \<not> fsMyProject ''/home/user/my/project'' \<and>
   find fsMyProject (candidates (splitOn (CHR ''-'') (slice 1 ''-home-user-my-project'')))
     = Some ''/home/user/my-project'' \<and>
   decodeProjectPath fsMyProject ''-home-user-my-project'' = ''/home/user/my-project''"
  using decode_first_existing_candidate
          [of "''-home-user-my-project''" fsMyProject "[''home'', ''user'']" "''my''" "''project''"]
  by (simp add: fsMyProject_def candidates_def render_def simplePath_def startsWith_def
        slice_def replaceAll_def)



text \<open>
  C9. For every encoded name that does not begin with the marker character \<open>-\<close>,
  decoding returns the name unchanged, whatever exists on the file system.
\<close>

theorem decode_unmarked_unchanged:
  "\<not> startsWith dirName ''-'' \<Longrightarrow> decodeProjectPath existsSync' dirName = dirName"
  by (simp add: decodeProjectPath_def)

theorem decode_unmarked_unchanged_witness:
  "\<not> startsWith ''my-project'' ''-'' \<and> decodeProjectPath fsMyProject ''my-project'' = ''my-project''"
  using decode_unmarked_unchanged [of "''my-project''" fsMyProject]
  by (simp add: startsWith_def)

lemmas ex_simps = endsWith_def startsWith_def UUID_REGEX_test_def hexLower_def simpleJoin_def
  Set_add_def testRoot_def decodeProjectPath_def matchesPattern_def notFound_def denied_def
  emptyResult_def noFilters_def generatePaths_candidates candidates_def render_def simplePath_def
  slice_def replaceAll_def noEntries_def Set_size_def stripExtension_def transcriptName_code Let_def

subsection \<open>Claims about \<^verbatim>\<open>matchesPattern\<close>\<close>

text \<open>
  On a platform whose regular expressions have their meaning on the fragment,
  \<^verbatim>\<open>/home/testuser/workspace/*\<close> matches \<^verbatim>\<open>/home/testuser/workspace/foo\<close> and
  \<^verbatim>\<open>/home/testuser/workspace/bar\<close> and not \<^verbatim>\<open>/home/testuser/other/baz\<close>.
\<close>

lemma matchesPattern_examples:
  assumes "ecmaScriptOnFragment newRegExp'"
  shows "matchesPattern newRegExp' ''/home/testuser/workspace/foo'' (Some ''/home/testuser/workspace/*'') = Inr True"
    and "matchesPattern newRegExp' ''/home/testuser/workspace/bar'' (Some ''/home/testuser/workspace/*'') = Inr True"
    and "matchesPattern newRegExp' ''/home/testuser/other/baz'' (Some ''/home/testuser/workspace/*'') = Inr False"
proof -
  have g: "list_all globCharacter ''/home/testuser/workspace/*''"
    by (simp add: globCharacter_def syntaxCharacter_def)
  show "matchesPattern newRegExp' ''/home/testuser/workspace/foo'' (Some ''/home/testuser/workspace/*'') = Inr True"
    by (subst matchesPattern_glob [OF assms _ g]) (simp_all add: notLineTerminator_def lineTerminator_def)
  show "matchesPattern newRegExp' ''/home/testuser/workspace/bar'' (Some ''/home/testuser/workspace/*'') = Inr True"
    by (subst matchesPattern_glob [OF assms _ g]) (simp_all add: notLineTerminator_def lineTerminator_def)
  show "matchesPattern newRegExp' ''/home/testuser/other/baz'' (Some ''/home/testuser/workspace/*'') = Inr False"
    by (subst matchesPattern_glob [OF assms _ g]) (simp_all add: notLineTerminator_def lineTerminator_def)
qed

text \<open>
  C6 has \<open>*\<close> match any character sequence. The code turns \<open>*\<close> into \<^verbatim>\<open>.*\<close>, and the dot
  of a regular expression without flags does not match a line terminator. So on every
  platform whose regular expressions have their meaning on the fragment, the filter
  \<^verbatim>\<open>*\<close> does not match the path \<^verbatim>\<open>a\<close>, line feed, \<^verbatim>\<open>b\<close>, which the glob \<^verbatim>\<open>*\<close> matches,
  and the scan skips a project directory of that name: it goes on with the next entry
  and the state as it is.
\<close>

theorem star_filter_rejects_line_break:
  assumes "ecmaScriptOnFragment (newRegExp pf)"
      and "projectFilter options = Some ''*''"
      and "isDirectory entry"
      and "name entry = twoLines"
  shows "globMatch anyCharacter ''*'' twoLines \<and>
         decodeProjectPath (existsSync pf) (name entry) = twoLines \<and>
         matchesPattern (newRegExp pf) twoLines (projectFilter options) = Inr False \<and>
         scanEntries pf options projectsDir (entry # rest) st =
           scanEntries pf options projectsDir rest st"
proof -
  have g: "globMatch anyCharacter ''*'' twoLines"
    by (simp add: twoLines_def anyCharacter_def)
  have d: "decodeProjectPath (existsSync pf) (name entry) = twoLines"
    by (simp add: assms(4) decodeProjectPath_def twoLines_def startsWith_def)
  have "list_all globCharacter ''*''" by (simp add: globCharacter_def)
  then have "matchesPattern (newRegExp pf) twoLines (Some ''*'')
               = Inr (globMatch notLineTerminator ''*'' twoLines)"
    using matchesPattern_glob [OF assms(1)] by simp
  then have m: "matchesPattern (newRegExp pf) twoLines (projectFilter options) = Inr False"
    by (simp add: assms(2) twoLines_def notLineTerminator_def lineTerminator_def)
  have "scanEntries pf options projectsDir (entry # rest) st =
           scanEntries pf options projectsDir rest st"
    using assms(3) d m by simp
  with g d m show ?thesis by simp
qed

theorem star_filter_rejects_line_break_witness:
  "ecmaScriptOnFragment (newRegExp lineBreakProject) \<and>
   projectFilter starOnly = Some ''*'' \<and>
   readdirWithFileTypes lineBreakProject
     (join lineBreakProject [homedir lineBreakProject, ''.claude'', ''projects''])
     = Inr [\<lparr>name = twoLines, isDirectory = True\<rparr>] \<and>
   readdir lineBreakProject (join lineBreakProject [testRoot, twoLines])
     = Inr [''a1b2c3d4-e5f6-7890-abcd-ef1234567890.jsonl''] \<and>
   globMatch anyCharacter ''*'' twoLines \<and>
   matchesPattern (newRegExp lineBreakProject) twoLines (projectFilter starOnly) = Inr False \<and>
   scanTranscripts lineBreakProject starOnly
     = Inr \<lparr>transcripts = [], totalSize = 0, projectCount = 0\<rparr>"
proof -
  have c: "ecmaScriptOnFragment (newRegExp lineBreakProject)"
    by (simp add: lineBreakProject_def exampleRegExp_conforms)
  have f: "projectFilter starOnly = Some ''*''" by (simp add: starOnly_def)
  have l: "readdirWithFileTypes lineBreakProject
     (join lineBreakProject [homedir lineBreakProject, ''.claude'', ''projects''])
     = Inr [\<lparr>name = twoLines, isDirectory = True\<rparr>]"
    by (simp add: lineBreakProject_def simpleJoin_def testRoot_def)
  have r: "readdir lineBreakProject (join lineBreakProject [testRoot, twoLines])
     = Inr [''a1b2c3d4-e5f6-7890-abcd-ef1234567890.jsonl'']"
    by (simp add: lineBreakProject_def)
  note w = star_filter_rejects_line_break
             [OF c f, of "\<lparr>name = twoLines, isDirectory = True\<rparr>"
                 "join lineBreakProject [homedir lineBreakProject, ''.claude'', ''projects'']"
                 "[]" "([], [])"]
  have s: "scanTranscripts lineBreakProject starOnly
     = Inr \<lparr>transcripts = [], totalSize = 0, projectCount = 0\<rparr>"
    using w l by (simp add: scanTranscripts_def tryBlock_def Set_size_def del: scanEntries.simps(2))
  show ?thesis using c f l r s w by simp
qed

text \<open>
  C10. When the filter is the empty string, \<^verbatim>\<open>matchesPattern\<close> is true for every path:
  the empty filter behaves as an absent one.
\<close>

theorem empty_filter_matches_everything:
  "matchesPattern newRegExp' path (Some []) = Inr True \<and>
   matchesPattern newRegExp' path (Some []) = matchesPattern newRegExp' path None"
  by (simp add: matchesPattern_def)

subsection \<open>Claims about \<^verbatim>\<open>scanTranscripts\<close>\<close>

text \<open>
  When the root listing succeeds and the loop over its entries is left by an error of a
  nested listing or of \<^verbatim>\<open>stat\<close>, the \<^verbatim>\<open>catch\<close> clause treats that error as it treats
  one of the root listing: the error is passed on unless its code is \<^verbatim>\<open>ENOENT\<close>.
\<close>

lemma nested_failure_outcome:
  assumes "readdirWithFileTypes pf (join pf [homedir pf, ''.claude'', ''projects'']) = Inr entries"
      and "scanEntries pf options (join pf [homedir pf, ''.claude'', ''projects'']) entries ([], [])
             = Inl (Thrown error)"
  shows "scanTranscripts pf options =
           (if code error = Some ''ENOENT'' then Inr emptyResult else Inl (Thrown error))"
  using assms by (simp add: scanTranscripts_def tryBlock_def)

text \<open>
  C1 says that an error of a nested call, "not found" included, is passed on. The code
  does otherwise on "not found": on the platform \<open>nestedMissing\<close> the root listing and
  both nested listings succeed, \<^verbatim>\<open>stat\<close> succeeds on the transcript of the first project
  directory and fails with \<^verbatim>\<open>ENOENT\<close> on the name in the second, and the scan returns the
  empty result, without the transcript of the first directory and without an error.
\<close>

theorem nested_not_found_returns_empty_result:
  "readdirWithFileTypes nestedMissing (join nestedMissing [homedir nestedMissing, ''.claude'', ''projects''])
     = Inr [\<lparr>name = ''alpha'', isDirectory = True\<rparr>, \<lparr>name = ''beta'', isDirectory = True\<rparr>] \<and>
   readdir nestedMissing (join nestedMissing [testRoot, ''alpha''])
     = Inr [''a1b2c3d4-e5f6-7890-abcd-ef1234567890.jsonl''] \<and>
   stat nestedMissing
     (join nestedMissing [join nestedMissing [testRoot, ''alpha''],
        ''a1b2c3d4-e5f6-7890-abcd-ef1234567890.jsonl''])
     = Inr \<lparr>size' = 1024, mtime = Date 24\<rparr> \<and>
   readdir nestedMissing (join nestedMissing [testRoot, ''beta''])
     = Inr [''c3d4e5f6-a7b8-9012-cdef-123456789012.jsonl''] \<and>
   stat nestedMissing
     (join nestedMissing [join nestedMissing [testRoot, ''beta''],
        ''c3d4e5f6-a7b8-9012-cdef-123456789012.jsonl''])
     = Inl notFound \<and>
   scanTranscripts nestedMissing noFilters
     = Inr \<lparr>transcripts = [], totalSize = 0, projectCount = 0\<rparr>"
  by (simp add: scanTranscripts_def tryBlock_def nestedMissing_def ex_simps)

text \<open>
  C2, as the claim states it, fails: the sizes are added as double-precision numbers.
  With a transcript of \<open>2 ^ 53\<close> bytes and one of one byte in a project directory, the
  scan returns \<open>totalSize = 2 ^ 53\<close>, and the sizes of its records add up to
  \<open>2 ^ 53 + 1\<close>.
\<close>

theorem total_size_rounding_counterexample:
  "scanTranscripts hugeFiles noFilters = Inr hugeResult \<and>
   totalSize hugeResult = 9007199254740992 \<and>
   sum_list (map fileSize (transcripts hugeResult)) = 9007199254740993 \<and>
   totalSize hugeResult \<noteq> enat (sum_list (map fileSize (transcripts hugeResult)))"
proof -
  have t: "foldl (\<lambda>sum t. numberAdd sum (fileSize t)) 0 (transcripts hugeResult) = 9007199254740992"
    by (simp add: hugeResult_def numberAdd_def zero_enat_def roundNumber_exact round_tie)
  have "scanTranscripts hugeFiles noFilters =
          Inr \<lparr>transcripts = transcripts hugeResult,
               totalSize = foldl (\<lambda>sum t. numberAdd sum (fileSize t)) 0 (transcripts hugeResult),
               projectCount = 1\<rparr>"
    by (simp add: scanTranscripts_def tryBlock_def hugeFiles_def hugeResult_def ex_simps)
  then have "scanTranscripts hugeFiles noFilters = Inr hugeResult"
    by (simp only: t) (simp add: hugeResult_def)
  then show ?thesis by (simp add: hugeResult_def numeral_eq_enat)
qed

text \<open>
  C2, amended. In every result that the scan returns, \<open>projectCount\<close> is the number of
  distinct \<open>projectDir\<close> values among the records of \<open>transcripts\<close>, and \<open>totalSize\<close> is
  the sum of \<open>fileSize\<close> over these records whenever that sum is at most \<open>2 ^ 53\<close>. In
  general \<open>totalSize\<close> is the double-precision sum of the sizes, taken from left to right.
\<close>

theorem scan_result_invariant:
  assumes "scanTranscripts pf options = Inr r"
  shows "projectCount r = card (projectDir ` set (transcripts r)) \<and>
         (sum_list (map fileSize (transcripts r)) \<le> 2 ^ 53 \<longrightarrow>
            totalSize r = enat (sum_list (map fileSize (transcripts r)))) \<and>
         totalSize r = foldl (\<lambda>sum t. numberAdd sum (fileSize t)) 0 (transcripts r)"
proof -
  let ?dir = "join pf [homedir pf, ''.claude'', ''projects'']"
  show ?thesis
  proof (cases "tryBlock pf options ?dir")
    case (Inl f)
    then have "r = emptyResult" using assms
      by (cases f) (auto simp: scanTranscripts_def split: if_splits)
    then show ?thesis by (simp add: emptyResult_def zero_enat_def)
  next
    case (Inr st)
    then obtain entries where "scanEntries pf options ?dir entries ([], []) = Inr st"
      by (auto simp: tryBlock_def split: sum.splits)
    then have "dirsInv st" using scanEntries_inv[of pf options ?dir entries "([], [])" st]
      by (simp add: dirsInv_def)
    then have c: "length (snd st) = card (projectDir ` set (fst st))"
      by (metis dirsInv_def distinct_card)
    have r: "r = \<lparr>transcripts = fst st,
               totalSize = foldl (\<lambda>sum t. numberAdd sum (fileSize t)) 0 (fst st),
               projectCount = Set_size (snd st)\<rparr>"
      using assms Inr by (cases st) (simp add: scanTranscripts_def)
    show ?thesis using c by (simp add: r foldl_numberAdd_0 Set_size_def)
  qed
qed

theorem scan_result_invariant_witness:
  "scanTranscripts twoProjects noFilters = Inr twoProjectsResult \<and>
   sum_list (map fileSize (transcripts twoProjectsResult)) \<le> 2 ^ 53 \<and>
   totalSize twoProjectsResult = enat (sum_list (map fileSize (transcripts twoProjectsResult))) \<and>
   projectCount twoProjectsResult = card (projectDir ` set (transcripts twoProjectsResult)) \<and>
   totalSize twoProjectsResult = 3072 \<and> projectCount twoProjectsResult = 2"
proof -
  have b: "sum_list (map fileSize (transcripts twoProjectsResult)) \<le> 2 ^ 53"
    by (simp add: twoProjectsResult_def)
  have t: "foldl (\<lambda>sum t. numberAdd sum (fileSize t)) 0 (transcripts twoProjectsResult) = 3072"
    using foldl_numberAdd_0 [OF b] by (simp add: twoProjectsResult_def numeral_eq_enat)
  have "scanTranscripts twoProjects noFilters =
          Inr \<lparr>transcripts = transcripts twoProjectsResult,
               totalSize = foldl (\<lambda>sum t. numberAdd sum (fileSize t)) 0 (transcripts twoProjectsResult),
               projectCount = 2\<rparr>"
    by (simp add: scanTranscripts_def tryBlock_def twoProjects_def twoProjectsResult_def ex_simps)
  then have e: "scanTranscripts twoProjects noFilters = Inr twoProjectsResult"
    by (simp only: t) (simp add: twoProjectsResult_def)
  from scan_result_invariant [OF e] e b show ?thesis
    by (simp add: twoProjectsResult_def)
qed

text \<open>
  C8. When the listing of the projects directory fails, the scan returns the empty result
  if the error says that the directory does not exist (code \<^verbatim>\<open>ENOENT\<close>), and fails with
  that error otherwise.
\<close>

theorem root_listing_failure:
  assumes "readdirWithFileTypes pf (join pf [homedir pf, ''.claude'', ''projects'']) = Inl error"
  shows "scanTranscripts pf options =
           (if code error = Some ''ENOENT''
            then Inr \<lparr>transcripts = [], totalSize = 0, projectCount = 0\<rparr>
            else Inl (Thrown error))"
  using assms by (simp add: scanTranscripts_def tryBlock_def emptyResult_def)

theorem root_listing_failure_witness:
  "readdirWithFileTypes (rootFails notFound)
     (join (rootFails notFound) [homedir (rootFails notFound), ''.claude'', ''projects'']) = Inl notFound \<and>
   scanTranscripts (rootFails notFound) noFilters
     = Inr \<lparr>transcripts = [], totalSize = 0, projectCount = 0\<rparr> \<and>
   readdirWithFileTypes (rootFails denied)
     (join (rootFails denied) [homedir (rootFails denied), ''.claude'', ''projects'']) = Inl denied \<and>
   scanTranscripts (rootFails denied) noFilters = Inl (Thrown denied)"
  using root_listing_failure [of "rootFails notFound" notFound noFilters]
        root_listing_failure [of "rootFails denied" denied noFilters]
  by (simp add: rootFails_def notFound_def denied_def)

text \<open>
  C5. The inner loop treats a listing as it treats the listing without the names that do
  not qualify: such a name adds no record, raises no error and is not looked up with
  \<^verbatim>\<open>stat\<close>. A name qualifies when it is not \<^verbatim>\<open>sessions-index.json\<close>, ends with
  \<^verbatim>\<open>.jsonl\<close> and is a UUID once that extension is stripped. Every record that the loop
  adds comes from a qualifying name of the listing, and its session identifier is that
  name without the extension.
\<close>

theorem only_transcript_names_yield_records:
  "scanFiles pf options pp pd full files st =
     scanFiles pf options pp pd full (filter transcriptName files) st \<and>
   (\<forall>st'. scanFiles pf options pp pd full files st = Inr st' \<longrightarrow>
      (\<exists>new. fst st' = fst st @ new \<and>
         (\<forall>t \<in> set new. \<exists>f \<in> set files.
            transcriptName f \<and> f = sessionId t @ ''.jsonl'' \<and> filePath t = join pf [full, f])))"
proof (intro conjI allI impI)
  show "scanFiles pf options pp pd full files st =
     scanFiles pf options pp pd full (filter transcriptName files) st"
    by (rule scanFiles_filter)
next
  fix st'
  assume "scanFiles pf options pp pd full files st = Inr st'"
  then show "\<exists>new. fst st' = fst st @ new \<and>
         (\<forall>t \<in> set new. \<exists>f \<in> set files.
            transcriptName f \<and> f = sessionId t @ ''.jsonl'' \<and> filePath t = join pf [full, f])"
    by (rule scanFiles_records)
qed

theorem only_transcript_names_yield_records_witness:
  "filter transcriptName mixedNames = [''a1b2c3d4-e5f6-7890-abcd-ef1234567890.jsonl''] \<and>
   scanFiles twoProjects noFilters ''/p'' ''-p'' ''/home/testuser/.claude/projects/-p'' mixedNames ([], [])
     = Inr ([\<lparr>projectPath = ''/p'', projectDir = ''-p'',
               sessionId = ''a1b2c3d4-e5f6-7890-abcd-ef1234567890'',
               filePath = ''/home/testuser/.claude/projects/-p/a1b2c3d4-e5f6-7890-abcd-ef1234567890.jsonl'',
               fileSize = 1024, modifiedTime = Date 24\<rparr>], [''-p''])"
proof -
  have f: "filter transcriptName mixedNames = [''a1b2c3d4-e5f6-7890-abcd-ef1234567890.jsonl'']"
    by (simp add: mixedNames_def ex_simps)
  have e1: "scanFiles twoProjects noFilters ''/p'' ''-p'' ''/home/testuser/.claude/projects/-p'' mixedNames ([], [])
      = scanFiles twoProjects noFilters ''/p'' ''-p'' ''/home/testuser/.claude/projects/-p''
          (filter transcriptName mixedNames) ([], [])"
    using only_transcript_names_yield_records
            [of twoProjects noFilters "''/p''" "''-p''" "''/home/testuser/.claude/projects/-p''"
                mixedNames "([], [])"]
    by (rule conjunct1)
  have e2: "scanFiles twoProjects noFilters ''/p'' ''-p'' ''/home/testuser/.claude/projects/-p''
          [''a1b2c3d4-e5f6-7890-abcd-ef1234567890.jsonl''] ([], [])
     = Inr ([\<lparr>projectPath = ''/p'', projectDir = ''-p'',
               sessionId = ''a1b2c3d4-e5f6-7890-abcd-ef1234567890'',
               filePath = ''/home/testuser/.claude/projects/-p/a1b2c3d4-e5f6-7890-abcd-ef1234567890.jsonl'',
               fileSize = 1024, modifiedTime = Date 24\<rparr>], [''-p''])"
    by (simp add: twoProjects_def ex_simps)
  show ?thesis by (simp only: e1 f e2 simp_thms)
qed



end
